theory Spec2Isabelle
  imports Main "HOL-Library.Sublist" "HOL-Library.Code_Target_Numeral"
begin

section \<open>Text\<close>

text \<open>
  A Python \<open>str\<close> is a sequence of Unicode code points, so text is a list of code point
  numbers. The literals of \<open>main.py\<close> that are not ASCII are written out as their code
  points; ASCII literals go through \<open>asc\<close>.
\<close>

type_synonym str = "nat list"

definition asc :: "string \<Rightarrow> str" where
  "asc s = map of_char s"

text \<open>
  \<open>text.replace(old, new)\<close>: every non-overlapping occurrence of \<open>old\<close>, found from the
  left, is replaced by \<open>new\<close>. With an empty \<open>old\<close> Python puts \<open>new\<close> before every
  character and at the end.
\<close>

function replace :: "'a list \<Rightarrow> 'a list \<Rightarrow> 'a list \<Rightarrow> 'a list" where
  "replace [] old new = (if old = [] then new else [])"
| "replace (x # xs) old new =
     (if old = [] then new @ x # replace xs old new
      else if prefix old (x # xs) then new @ replace (drop (length old) (x # xs)) old new
      else x # replace xs old new)"
  by pat_completeness auto
termination
  by (relation "measure (\<lambda>(t, old, new). length t)") auto

text \<open>\<open>str(n)\<close> for a Python \<open>int\<close>: decimal digits, with a minus sign when negative.\<close>

function str_nat :: "nat \<Rightarrow> str" where
  "str_nat n = (if n < 10 then [48 + n] else str_nat (n div 10) @ [48 + n mod 10])"
  by pat_completeness auto
termination
  by (relation "measure id") auto

declare str_nat.simps [simp del]

definition str_int :: "int \<Rightarrow> str" where
  "str_int i = (if i < 0 then 45 # str_nat (nat (- i)) else str_nat (nat i))"

section \<open>Values, dictionaries and exceptions\<close>

text \<open>
  The values a product dictionary holds after \<open>json.load\<close>: \<open>None\<close>, booleans, integers
  and strings. Fractional numbers (Python floats) and nested lists or objects as field
  values are outside this model.
\<close>

datatype pyval = PNone | PBool bool | PInt int | PStr str

type_synonym pydict = "(str \<times> pyval) list"

text \<open>\<open>d.get(key, default)\<close>; \<open>d.get(key)\<close> is \<open>py_get d key PNone\<close>.\<close>

definition py_get :: "pydict \<Rightarrow> str \<Rightarrow> pyval \<Rightarrow> pyval" where
  "py_get d key dflt = (case map_of d key of None \<Rightarrow> dflt | Some v \<Rightarrow> v)"

text \<open>
  The exceptions of the model. Those whose text is logged carry it. \<open>OSError\<close> stands
  for an \<open>OSError\<close> that is not a \<open>FileNotFoundError\<close>; \<open>ValueError\<close> includes its
  subclasses (\<open>UnicodeDecodeError\<close>); \<open>TelegramError\<close> is a failed call on the message.
\<close>

datatype exn =
    FileNotFoundError str
  | OSError str
  | ValueError str
  | TypeError
  | AttributeError
  | KeyError
  | TelegramError str

text \<open>\<open>str(v)\<close>, which is what an f-string field \<open>{v}\<close> inserts for these values.\<close>

fun py_str :: "pyval \<Rightarrow> str" where
  "py_str PNone = asc ''None''"
| "py_str (PBool b) = (if b then asc ''True'' else asc ''False'')"
| "py_str (PInt i) = str_int i"
| "py_str (PStr s) = s"

text \<open>
  \<open>v > 0\<close> and \<open>a - b\<close>: defined on integers and booleans (a \<open>bool\<close> is an \<open>int\<close> in
  Python), a \<open>TypeError\<close> on \<open>None\<close> and on strings.
\<close>

fun py_num :: "pyval \<Rightarrow> int option" where
  "py_num (PInt i) = Some i"
| "py_num (PBool b) = Some (if b then 1 else 0)"
| "py_num PNone = None"
| "py_num (PStr s) = None"

definition py_gt0 :: "pyval \<Rightarrow> exn + bool" where
  "py_gt0 v = (case py_num v of None \<Rightarrow> Inl TypeError | Some i \<Rightarrow> Inr (0 < i))"

definition py_sub :: "pyval \<Rightarrow> pyval \<Rightarrow> exn + pyval" where
  "py_sub a b =
     (case py_num a of None \<Rightarrow> Inl TypeError
      | Some i \<Rightarrow> (case py_num b of None \<Rightarrow> Inl TypeError | Some j \<Rightarrow> Inr (PInt (i - j))))"

section \<open>Escaping and the caption\<close>

definition reserved_chars :: str where
  "reserved_chars = asc ''_*[]()~`>#+-=|{}.!/''"

definition backslash :: nat where
  "backslash = 92"

text \<open>
  \<open>escape_markdown_v2\<close>: the loop over the reserved characters, each step one
  \<open>text.replace(char, '\\' + char)\<close>.
\<close>

definition escape_markdown_v2 :: "str \<Rightarrow> str" where
  "escape_markdown_v2 t = foldl (\<lambda>acc c. replace acc [c] [backslash, c]) t reserved_chars"

definition riyal :: str where
  "riyal = [32, 1585, 1610, 1575, 1604]"

definition cap_head :: str where
  "cap_head = [42, 127991, 65039, 32, 1575, 1604, 1605, 1606, 1578, 1580, 32]"

definition cap_title_end :: str where
  "cap_title_end = [42, 10, 10]"

definition cap_price_head :: str where
  "cap_price_head = [128181, 32, 42, 1575, 1604, 1587, 1593, 1585, 58, 42, 10, 126, 126]"

definition cap_price_mid :: str where
  "cap_price_mid = [126, 126, 32, 10145, 65039, 32, 42]"

definition cap_price_end :: str where
  "cap_price_end = [42, 10]"

definition cap_saved_head :: str where
  "cap_saved_head = [128176, 32, 42, 1608, 1601, 1585, 1578, 58, 32]"

definition cap_saved_end :: str where
  "cap_saved_end = [42, 32, 127881]"

definition cap_single_head :: str where
  "cap_single_head = [128181, 32, 42, 1575, 1604, 1587, 1593, 1585, 58, 32]"

text \<open>
  \<open>_build_caption(product, idx)\<close>. The statements run in the source's order, so the
  first exception is the one Python raises: \<open>product["title"]\<close> and
  \<open>product["new_price"]\<close> raise \<open>KeyError\<close>, the comparison and the subtraction raise
  \<open>TypeError\<close>, and \<open>escape_markdown_v2(title)\<close> raises \<open>AttributeError\<close> when the
  title is not a string (it has no \<open>replace\<close>).
\<close>

definition build_caption :: "pydict \<Rightarrow> int \<Rightarrow> exn + str" where
  "build_caption product idx =
     (case map_of product (asc ''title'') of
        None \<Rightarrow> Inl KeyError
      | Some title \<Rightarrow>
          let old_price = py_get product (asc ''old_price'') (PInt 0) in
          (case map_of product (asc ''new_price'') of
             None \<Rightarrow> Inl KeyError
           | Some new_price \<Rightarrow>
               (case py_gt0 old_price of
                  Inl e \<Rightarrow> Inl e
                | Inr discounted \<Rightarrow>
                    (case (if discounted then py_sub old_price new_price else Inr (PInt 0)) of
                       Inl e \<Rightarrow> Inl e
                     | Inr savings \<Rightarrow>
                         (case title of
                            PStr t \<Rightarrow>
                              let escaped_title = escape_markdown_v2 t;
                                  escaped_old_price = escape_markdown_v2 (py_str old_price @ riyal);
                                  escaped_new_price = escape_markdown_v2 (py_str new_price @ riyal);
                                  escaped_savings = escape_markdown_v2 (py_str savings @ riyal);
                                  caption = cap_head @ str_int idx @ asc '': '' @ escaped_title
                                            @ cap_title_end
                              in Inr (if discounted
                                      then caption @ cap_price_head @ escaped_old_price
                                           @ cap_price_mid @ escaped_new_price @ cap_price_end
                                           @ cap_saved_head @ escaped_savings @ cap_saved_end
                                      else caption @ cap_single_head @ escaped_new_price
                                           @ asc ''*'')
                          | _ \<Rightarrow> Inl AttributeError)))))"

text \<open>
  The plain caption that \<open>send_product_message\<close> builds in its \<open>except\<close> branch:
  \<open>caption.replace('\\*', '*').replace('~~', '').replace(arrow, '->')\<close>, the arrow being
  U+27A1 U+FE0F and 42 the code point of the star.
\<close>

definition strike_marker :: str where
  "strike_marker = asc ''~~''"

definition plain_caption :: "str \<Rightarrow> str" where
  "plain_caption caption =
     replace (replace (replace caption [backslash, 42] (asc ''*'')) strike_marker [])
       [10145, 65039] (asc ''->'')"

section \<open>The catalog\<close>

text \<open>
  What \<open>data/products.json\<close> can be when \<open>load_products\<close> runs: absent; present but
  \<open>open\<close> fails with another \<open>OSError\<close> (carrying its message); bytes that are not UTF-8
  (\<open>UnicodeDecodeError\<close>, a \<open>ValueError\<close>); text that is not JSON (carrying the decoder's
  message); or a JSON document.

  \<open>load_products\<close> returns whatever \<open>json.load\<close> gives, so the document need not be a
  list. The code calls \<open>len\<close> on it, iterates over it and calls \<open>.get\<close> on each element:
  a list has its elements, each a dictionary or something without \<open>.get\<close>; an object or
  a string at top level has a length and iterates over strings (\<open>DSized n\<close>); \<open>null\<close>, a
  boolean or a number has no length (\<open>DUnsized\<close>).
\<close>

datatype element = EDict pydict | ENonDict

datatype document = DList "element list" | DSized nat | DUnsized

datatype source =
    Missing
  | Unreadable str
  | Undecodable str
  | BadJSON str
  | Doc document

fun py_len :: "document \<Rightarrow> nat option" where
  "py_len (DList es) = Some (length es)"
| "py_len (DSized n) = Some n"
| "py_len DUnsized = None"

text \<open>Iteration: the elements, or \<open>None\<close> when the value is not iterable.\<close>

fun py_iter :: "document \<Rightarrow> element list option" where
  "py_iter (DList es) = Some es"
| "py_iter (DSized n) = Some (replicate n ENonDict)"
| "py_iter DUnsized = None"

section \<open>The environment and the trace\<close>

datatype parse_mode = NoParseMode | Markdown | MarkdownV2

text \<open>
  Keyboards: a reply keyboard is its rows of button labels and its input placeholder;
  the inline keyboard of a product card is one button, its label and its \<open>url\<close>.
\<close>

datatype markup =
    NoMarkup
  | ReplyKeyboard "str list list" "str option"
  | ReplyKeyboardRemove
  | InlineKeyboard str pyval

text \<open>
  The two calls on the message: \<open>message.answer(text, reply_markup, parse_mode)\<close> and
  \<open>message.answer_photo(photo, caption, reply_markup, parse_mode)\<close>, the photo being the
  path given to \<open>FSInputFile\<close>.
\<close>

datatype request =
    Answer str markup parse_mode
  | AnswerPhoto str str markup parse_mode

datatype level = INFO | WARNING | ERROR

text \<open>
  A handler's observable behaviour is the sequence of its log records and of its
  requests to the transport, each request with whether it was delivered.
\<close>

datatype event = Log level str | Request request bool

text \<open>
  The environment of one handler run: the state of the catalog file, which paths exist
  (for product images and the placeholder), the hour of \<open>datetime.now()\<close>, and the
  transport: \<open>delivery w n\<close> is the outcome of request number \<open>n\<close> of the trace,
  counted from 0: \<open>None\<close> when it is delivered, the error's text when the call raises.
  \<open>command_start\<close> is aiogram's \<open>CommandStart()\<close> filter, which is library code.
\<close>

record world =
  catalog :: source
  path_exists :: "str \<Rightarrow> bool"
  hour :: nat
  delivery :: "nat \<Rightarrow> str option"
  command_start :: "str \<Rightarrow> bool"

type_synonym 'a io = "event list \<Rightarrow> (exn + 'a) \<times> event list"

fun is_request :: "event \<Rightarrow> bool" where
  "is_request (Request r ok) = True"
| "is_request (Log l m) = False"

definition log :: "level \<Rightarrow> str \<Rightarrow> event list \<Rightarrow> event list" where
  "log l m tr = tr @ [Log l m]"

text \<open>
  One call on the message. \<open>transport\<close> gives \<open>None\<close> when the call returns and the
  error's text when it raises; \<open>send\<close> is the call outside a \<open>try\<close>, where the
  exception leaves the handler.
\<close>

definition transport :: "world \<Rightarrow> request \<Rightarrow> event list \<Rightarrow> str option \<times> event list" where
  "transport w r tr =
     (case delivery w (length (filter is_request tr)) of
        None \<Rightarrow> (None, tr @ [Request r True])
      | Some err \<Rightarrow> (Some err, tr @ [Request r False]))"

definition send :: "world \<Rightarrow> request \<Rightarrow> unit io" where
  "send w r tr =
     (case transport w r tr of
        (None, tr') \<Rightarrow> (Inr (), tr')
      | (Some err, tr') \<Rightarrow> (Inl (TelegramError err), tr'))"

section \<open>Labels and messages\<close>

definition express_label :: str where
  "express_label = [9889, 32, 1593, 1604, 1610, 32, 1573, 1603, 1587, 32, 1576, 1585, 1575, 1587]"

definition trendyol_label :: str where
  "trendyol_label = [128717, 65039, 32, 1578, 1585, 1610, 1606, 1583, 1608, 1610, 1604]"

definition amazon_label :: str where
  "amazon_label = [128640, 32, 1571, 1605, 1575, 1586, 1608, 1606]"

definition PLATFORM_MAP :: "(str \<times> str) list" where
  "PLATFORM_MAP =
     [(asc ''express'', express_label),
      (asc ''trendyol'', trendyol_label),
      (asc ''amazon'', amazon_label)]"

definition groceries_label :: str where
  "groceries_label = [128722, 32, 1605, 1608, 1575, 1583, 32, 1594, 1584, 1575, 1574, 1610, 1577]"

definition beauty_label :: str where
  "beauty_label = [128132, 32, 1575, 1604, 1580, 1605, 1575, 1604]"

definition mobiles_label :: str where
  "mobiles_label = [128241, 32, 1575, 1604, 1580, 1608, 1575, 1604, 1575, 1578]"

definition home_appliances_label :: str where
  "home_appliances_label =
     [127968, 32, 1575, 1604, 1571, 1580, 1607, 1586, 1577, 32, 1575, 1604, 1605, 1606, 1586,
      1604, 1610, 1577]"

definition CATEGORY_MAP :: "(str \<times> str) list" where
  "CATEGORY_MAP =
     [(asc ''groceries'', groceries_label),
      (asc ''beauty'', beauty_label),
      (asc ''mobiles'', mobiles_label),
      (asc ''home_appliances'', home_appliances_label)]"

definition back_label :: str where
  "back_label =
     [8617, 65039, 32, 1585, 1580, 1608, 1593, 32, 1573, 1604, 1609, 32, 1575, 1604, 1605, 1606,
      1589, 1575, 1578]"

definition show_more_label :: str where
  "show_more_label = [128722, 32, 1593, 1585, 1590, 32, 1575, 1604, 1605, 1586, 1610, 1583]"

definition greeting_morning :: str where
  "greeting_morning = [1589, 1576, 1575, 1581, 32, 1575, 1604, 1582, 1610, 1585, 33, 32, 127749]"

definition greeting_afternoon :: str where
  "greeting_afternoon =
     [1605, 1587, 1575, 1569, 32, 1575, 1604, 1582, 1610, 1585, 33, 32, 9728, 65039]"

definition greeting_evening :: str where
  "greeting_evening = [1605, 1587, 1575, 1569, 32, 1575, 1604, 1582, 1610, 1585, 33, 32, 127769]"

definition start_text_tail :: str where
  "start_text_tail =
     [10, 10, 127881, 32, 42, 42, 1605, 1585, 1581, 1576, 1575, 1611, 32, 1576, 1603, 32, 1601,
      1610, 32, 1605, 1578, 1580, 1585, 1606, 1575, 32, 1575, 1604, 1573, 1604, 1603, 1578, 1585,
      1608, 1606, 1610, 33, 42, 42, 32, 127775, 10, 10, 10024, 32, 42, 1575, 1582, 1578, 1585, 32,
      1575, 1604, 1605, 1606, 1589, 1577, 32, 1575, 1604, 1578, 1610, 32, 1578, 1585, 1610, 1583,
      32, 1575, 1587, 1578, 1593, 1585, 1575, 1590, 32, 1593, 1585, 1608, 1590, 1607, 1575, 58,
      42]"

definition start_placeholder :: str where
  "start_placeholder =
     [128073, 32, 1575, 1582, 1578, 1585, 32, 1605, 1606, 1589, 1577, 46, 46, 46]"

definition amazon_text :: str where
  "amazon_text =
     [128640, 32, 42, 42, 1605, 1585, 1581, 1576, 1575, 1611, 32, 1576, 1603, 32, 1601, 1610, 32,
      1571, 1605, 1575, 1586, 1608, 1606, 33, 42, 42, 10, 10, 128717, 65039, 32, 42, 1575, 1582,
      1578, 1585, 32, 1575, 1604, 1602, 1587, 1605, 32, 1575, 1604, 1584, 1610, 32, 1610, 1607,
      1605, 1603, 32, 1604, 1593, 1585, 1590, 32, 1575, 1604, 1593, 1585, 1608, 1590, 32, 1575,
      1604, 1581, 1589, 1585, 1610, 1577, 58, 42]"

definition amazon_placeholder :: str where
  "amazon_placeholder =
     [127919, 32, 1575, 1582, 1578, 1585, 32, 1575, 1604, 1602, 1587, 1605, 46, 46, 46]"

definition temporary_error_text :: str where
  "temporary_error_text =
     [9888, 65039, 32, 42, 42, 1593, 1584, 1585, 1575, 1611, 1548, 32, 1581, 1583, 1579, 32, 1582,
      1591, 1571, 32, 1605, 1572, 1602, 1578, 42, 42, 10, 1575, 1604, 1585, 1580, 1575, 1569, 32,
      1575, 1604, 1605, 1581, 1575, 1608, 1604, 1577, 32, 1604, 1575, 1581, 1602, 1611, 1575, 46]"

definition unknown_category_text :: str where
  "unknown_category_text =
     [10060, 32, 1602, 1587, 1605, 32, 1594, 1610, 1585, 32, 1605, 1593, 1585, 1608, 1601, 46, 32,
      1575, 1587, 1578, 1582, 1583, 1605, 32, 47, 115, 116, 97, 114, 116, 32, 1604, 1604, 1576,
      1583, 1569, 46]"

definition empty_category_text :: str where
  "empty_category_text =
     [128230, 32, 42, 42, 1604, 1575, 32, 1578, 1608, 1580, 1583, 32, 1605, 1606, 1578, 1580,
      1575, 1578, 32, 1601, 1610, 32, 1607, 1584, 1575, 32, 1575, 1604, 1602, 1587, 1605, 32,
      1581, 1575, 1604, 1610, 1575, 1611, 42, 42, 10, 10, 10024, 32, 1580, 1575, 1585, 1610, 32,
      1578, 1581, 1583, 1610, 1579, 32, 1575, 1604, 1593, 1585, 1608, 1590, 32, 1602, 1585, 1610,
      1576, 1575, 1611, 33]"

definition loading_head :: str where
  "loading_head =
     [128260, 32, 42, 42, 1580, 1575, 1585, 1610, 32, 1578, 1581, 1605, 1610, 1604, 32, 1575,
      1604, 1605, 1606, 1578, 1580, 1575, 1578, 32, 1601, 1610, 32]"

definition end_text :: str where
  "end_text =
     [127882, 32, 42, 42, 1578, 1605, 32, 1593, 1585, 1590, 32, 1580, 1605, 1610, 1593, 32, 1575,
      1604, 1605, 1606, 1578, 1580, 1575, 1578, 42, 42, 10, 10, 128171, 32, 42, 1575, 1582, 1578,
      1585, 32, 1602, 1587, 1605, 32, 1570, 1582, 1585, 32, 1571, 1608, 32, 1593, 1583, 32, 1573,
      1604, 1609, 32, 1575, 1604, 1602, 1575, 1574, 1605, 1577, 32, 1575, 1604, 1585, 1574, 1610,
      1587, 1610, 1577, 42]"

definition buy_now :: str where
  "buy_now = [128722, 32, 1575, 1588, 1578, 1585, 1616, 32, 1575, 1604, 1570, 1606]"

definition soon_tail :: str where
  "soon_tail =
     [10, 10, 128679, 32, 42, 42, 1580, 1575, 1585, 1610, 32, 1575, 1604, 1578, 1591, 1608, 1610,
      1585, 42, 42, 10, 10, 9889, 32, 42, 1607, 1584, 1607, 32, 1575, 1604, 1605, 1606, 1589,
      1577, 32, 1602, 1610, 1583, 32, 1575, 1604, 1578, 1591, 1608, 1610, 1585, 32, 1581, 1575,
      1604, 1610, 1575, 1611, 42, 10, 10024, 32, 1587, 1578, 1603, 1608, 1606, 32, 1605, 1578,
      1575, 1581, 1577, 32, 1602, 1585, 1610, 1576, 1575, 1611, 32, 1576, 1573, 1584, 1606, 32,
      1575, 1604, 1604, 1607, 10, 10, 128142, 32, 42, 1610, 1605, 1603, 1606, 1603, 32, 1578,
      1580, 1585, 1576, 1577, 32, 1605, 1606, 1589, 1577, 32, 1571, 1605, 1575, 1586, 1608, 1606,
      32, 1575, 1604, 1570, 1606, 33, 42]"

section \<open>The catalog provider\<close>

definition load_products :: "world \<Rightarrow> document io" where
  "load_products w tr =
     (case catalog w of
        Missing \<Rightarrow>
          (Inl (FileNotFoundError (asc ''data/products.json missing'')),
           log ERROR (asc ''products.json not found in data/ folder'') tr)
      | Unreadable m \<Rightarrow> (Inl (OSError m), tr)
      | Undecodable m \<Rightarrow> (Inl (ValueError m), tr)
      | BadJSON m \<Rightarrow>
          (Inl (ValueError (asc ''Invalid JSON format in products.json'')),
           log ERROR (asc ''Invalid JSON in products.json: '' @ m) tr)
      | Doc products \<Rightarrow>
          (case py_len products of
             None \<Rightarrow> (Inl TypeError, tr)
           | Some n \<Rightarrow>
               (Inr products,
                log INFO (asc ''Loaded '' @ str_int (int n) @ asc '' products from JSON'') tr)))"

text \<open>
  The list comprehension of \<open>get_products_by_category\<close>: it visits every element, and
  \<open>p.get\<close> raises \<open>AttributeError\<close> on an element that is not a dictionary.
  \<open>p.get("category") == category\<close> holds when the field is a string equal to the key.
\<close>

fun matching :: "element list \<Rightarrow> str \<Rightarrow> exn + pydict list" where
  "matching [] category = Inr []"
| "matching (ENonDict # ps) category = Inl AttributeError"
| "matching (EDict p # ps) category =
     (case matching ps category of
        Inl e \<Rightarrow> Inl e
      | Inr r \<Rightarrow> Inr (if py_get p (asc ''category'') PNone = PStr category then p # r else r))"

definition get_products_by_category :: "document \<Rightarrow> str \<Rightarrow> exn + pydict list" where
  "get_products_by_category products category =
     (case py_iter products of
        None \<Rightarrow> Inl TypeError
      | Some elements \<Rightarrow>
          (case matching elements category of
             Inl e \<Rightarrow> Inl e
           | Inr r \<Rightarrow> Inr (take 3 r)))"

section \<open>Handlers\<close>

definition get_greeting :: "world \<Rightarrow> str" where
  "get_greeting w =
     (if 5 \<le> hour w \<and> hour w < 12 then greeting_morning
      else if 12 \<le> hour w \<and> hour w < 18 then greeting_afternoon
      else greeting_evening)"

text \<open>
  \<open>builder.adjust(n)\<close> lays the buttons out in rows of \<open>n\<close>. The source calls it with
  1 and 2 only.
\<close>

function adjust :: "nat \<Rightarrow> 'a list \<Rightarrow> 'a list list" where
  "adjust n xs = (if n = 0 \<or> xs = [] then [] else take n xs # adjust n (drop n xs))"
  by pat_completeness auto
termination
  by (relation "measure (\<lambda>(n, xs). length xs)") auto

declare adjust.simps [simp del]

definition start_handler :: "world \<Rightarrow> unit io" where
  "start_handler w =
     send w (Answer (get_greeting w @ start_text_tail)
               (ReplyKeyboard (adjust 1 (map snd PLATFORM_MAP)) (Some start_placeholder))
               Markdown)"

definition amazon_handler :: "world \<Rightarrow> unit io" where
  "amazon_handler w =
     send w (Answer amazon_text
               (ReplyKeyboard (adjust 2 (map snd CATEGORY_MAP @ [back_label]))
                  (Some amazon_placeholder))
               Markdown)"

definition back_to_platforms_handler :: "world \<Rightarrow> unit io" where
  "back_to_platforms_handler w = start_handler w"

definition show_more_handler :: "world \<Rightarrow> unit io" where
  "show_more_handler w = amazon_handler w"

definition other_platforms_handler :: "world \<Rightarrow> str \<Rightarrow> unit io" where
  "other_platforms_handler w platform_name =
     send w (Answer (platform_name @ soon_tail)
               (ReplyKeyboard [[amazon_label], [back_label]] None)
               Markdown)"

definition get_placeholder_image :: "world \<Rightarrow> event list \<Rightarrow> str option \<times> event list" where
  "get_placeholder_image w tr =
     (if path_exists w (asc ''assets/placeholder.jpg'')
      then (Some (asc ''assets/placeholder.jpg''), tr)
      else (None, log WARNING (asc ''Placeholder image not found; using text fallback'') tr))"

text \<open>
  \<open>send_product_message\<close>, in the order of its statements.

  The photo: \<open>Path(product.get("image", ""))\<close> raises \<open>TypeError\<close> when the field is
  present and not a string; the image is used when its path exists, the placeholder (or
  \<open>None\<close>) otherwise.
\<close>

definition select_photo :: "world \<Rightarrow> pydict \<Rightarrow> str option io" where
  "select_photo w product tr =
     (case py_get product (asc ''image'') (PStr []) of
        PStr image_path \<Rightarrow>
          if path_exists w image_path then (Inr (Some image_path), tr)
          else (case get_placeholder_image w tr of (photo, tr') \<Rightarrow> (Inr photo, tr'))
      | _ \<Rightarrow> (Inl TypeError, tr))"

text \<open>\<open>_build_product_keyboard(detail_url)\<close>: one inline button with the link.\<close>

definition build_product_keyboard :: "pyval \<Rightarrow> markup" where
  "build_product_keyboard detail_url = InlineKeyboard buy_now detail_url"

text \<open>
  The \<open>try\<close> block sends the rich card, with the photo when there is one. Its
  \<open>except\<close> branch formats \<open>product['id']\<close> into the log record (a \<open>KeyError\<close> when
  the field is absent) and then sends the plain caption; that second send is not inside
  a \<open>try\<close>, so its failure leaves the function.
\<close>

definition rich_card :: "str option \<Rightarrow> str \<Rightarrow> markup \<Rightarrow> request" where
  "rich_card photo caption keyboard =
     (case photo of
        Some f \<Rightarrow> AnswerPhoto f caption keyboard MarkdownV2
      | None \<Rightarrow> Answer caption keyboard MarkdownV2)"

definition plain_card :: "str \<Rightarrow> markup \<Rightarrow> request" where
  "plain_card caption keyboard = Answer (plain_caption caption) keyboard NoParseMode"

definition send_card :: "world \<Rightarrow> pydict \<Rightarrow> str option \<Rightarrow> str \<Rightarrow> markup \<Rightarrow> unit io" where
  "send_card w product photo caption keyboard tr =
     (case transport w (rich_card photo caption keyboard) tr of
        (None, tr') \<Rightarrow> (Inr (), tr')
      | (Some err, tr') \<Rightarrow>
          (case map_of product (asc ''id'') of
             None \<Rightarrow> (Inl KeyError, tr')
           | Some pid \<Rightarrow>
               send w (plain_card caption keyboard)
                 (log ERROR (asc ''Failed to send product '' @ py_str pid @ asc '': '' @ err)
                    tr')))"

definition send_product_message :: "world \<Rightarrow> pydict \<Rightarrow> int \<Rightarrow> unit io" where
  "send_product_message w product idx tr =
     (case select_photo w product tr of
        (Inl e, tr1) \<Rightarrow> (Inl e, tr1)
      | (Inr photo, tr1) \<Rightarrow>
          (case build_caption product idx of
             Inl e \<Rightarrow> (Inl e, tr1)
           | Inr caption \<Rightarrow>
               (case map_of product (asc ''detail_url'') of
                  None \<Rightarrow> (Inl KeyError, tr1)
                | Some detail_url \<Rightarrow>
                    send_card w product photo caption (build_product_keyboard detail_url)
                      tr1)))"

text \<open>The loop \<open>for idx, product in enumerate(cat_products, 1)\<close>.\<close>

fun send_products :: "world \<Rightarrow> pydict list \<Rightarrow> int \<Rightarrow> unit io" where
  "send_products w [] idx tr = (Inr (), tr)"
| "send_products w (product # rest) idx tr =
     (case send_product_message w product idx tr of
        (Inl e, tr') \<Rightarrow> (Inl e, tr')
      | (Inr u, tr') \<Rightarrow> send_products w rest (idx + 1) tr')"

text \<open>
  The reverse lookup \<open>next((k for k, v in CATEGORY_MAP.items() if v == message.text), None)\<close>
  and the test \<open>not selected_category\<close>, true of \<open>None\<close> and of the empty string.
\<close>

definition selected_category :: "str \<Rightarrow> str option" where
  "selected_category label = map_option fst (find (\<lambda>(k, v). v = label) CATEGORY_MAP)"

definition generic_error :: request where
  "generic_error = Answer temporary_error_text NoMarkup Markdown"

definition unknown_category :: request where
  "unknown_category = Answer unknown_category_text NoMarkup NoParseMode"

definition empty_category :: request where
  "empty_category =
     Answer empty_category_text (ReplyKeyboard [[back_label]] None) Markdown"

text \<open>
  \<open>category_handler\<close>. The \<open>except (FileNotFoundError, ValueError)\<close> clause catches
  these two and nothing else; the calls after it are outside any \<open>try\<close>.
\<close>

definition load_failed :: "world \<Rightarrow> str \<Rightarrow> unit io" where
  "load_failed w m tr = send w generic_error (log ERROR (asc ''Data load error: '' @ m) tr)"

definition category_handler :: "world \<Rightarrow> str \<Rightarrow> unit io" where
  "category_handler w label tr =
     (case load_products w tr of
        (Inl (FileNotFoundError m), tr1) \<Rightarrow> load_failed w m tr1
      | (Inl (ValueError m), tr1) \<Rightarrow> load_failed w m tr1
      | (Inl e, tr1) \<Rightarrow> (Inl e, tr1)
      | (Inr products, tr1) \<Rightarrow>
          (case selected_category label of
             None \<Rightarrow> send w unknown_category tr1
           | Some category \<Rightarrow>
               if category = [] then send w unknown_category tr1
               else
                 (case get_products_by_category products category of
                    Inl e \<Rightarrow> (Inl e, tr1)
                  | Inr cat_products \<Rightarrow>
                      if cat_products = [] then send w empty_category tr1
                      else
                        (case send w (Answer (loading_head @ label @ asc ''...**'')
                                        ReplyKeyboardRemove Markdown) tr1 of
                           (Inl e, tr2) \<Rightarrow> (Inl e, tr2)
                         | (Inr u, tr2) \<Rightarrow>
                             (case send_products w cat_products 1 tr2 of
                                (Inl e, tr3) \<Rightarrow> (Inl e, tr3)
                              | (Inr u', tr3) \<Rightarrow>
                                  send w (Answer end_text
                                            (ReplyKeyboard [[show_more_label, back_label]] None)
                                            Markdown) tr3)))))"

section \<open>The router\<close>

text \<open>
  The handlers are registered on one router, in the order of the file; an update goes to
  the first handler whose filter accepts the message text, and to none when no filter
  does.
\<close>

datatype outcome = Handled | Unhandled

definition handled :: "unit io \<Rightarrow> outcome io" where
  "handled h tr = (case h tr of (Inl e, tr') \<Rightarrow> (Inl e, tr') | (Inr u, tr') \<Rightarrow> (Inr Handled, tr'))"

definition dispatch :: "world \<Rightarrow> str \<Rightarrow> outcome io" where
  "dispatch w label tr =
     (if command_start w label then handled (start_handler w) tr
      else if label = amazon_label then handled (amazon_handler w) tr
      else if label = back_label then handled (back_to_platforms_handler w) tr
      else if label \<in> set (map snd CATEGORY_MAP) then handled (category_handler w label) tr
      else if label = show_more_label then handled (show_more_handler w) tr
      else if label \<in> set [express_label, trendyol_label]
        then handled (other_platforms_handler w label) tr
      else (Inr Unhandled, tr))"

section \<open>Auxiliary definitions and example data\<close>

text \<open>What one pass of escaping does to a single character.\<close>

definition esc_char :: "nat \<Rightarrow> str" where
  "esc_char c = (if c \<in> set reserved_chars then [backslash, c] else [c])"




text \<open>Example products.\<close>

definition tea :: pydict where
  "tea =
     [(asc ''id'', PInt 1),
      (asc ''title'', PStr (asc ''Green tea (1.5kg)'')),
      (asc ''category'', PStr (asc ''groceries'')),
      (asc ''new_price'', PInt 80),
      (asc ''old_price'', PInt 100),
      (asc ''detail_url'', PStr (asc ''https://example.com/tea'')),
      (asc ''image'', PStr (asc ''images/tea.jpg''))]"

definition symbols :: pydict where
  "symbols =
     [(asc ''id'', PInt 2),
      (asc ''title'', PStr (asc ''_*[]()~`>#+-=|{}.!/'')),
      (asc ''category'', PStr (asc ''groceries'')),
      (asc ''new_price'', PInt 10),
      (asc ''detail_url'', PStr (asc ''https://example.com/symbols''))]"

text \<open>
  Observations on a trace: the product cards are the rich requests, those sent with
  \<open>MarkdownV2\<close> and the inline purchase button.
\<close>

fun is_card :: "event \<Rightarrow> bool" where
  "is_card (Request (Answer c (InlineKeyboard b u) MarkdownV2) ok) = True"
| "is_card (Request (AnswerPhoto f c (InlineKeyboard b u) MarkdownV2) ok) = True"
| "is_card e = False"

fun caption_of :: "event \<Rightarrow> str" where
  "caption_of (Request (Answer c k m) ok) = c"
| "caption_of (Request (AnswerPhoto f c k m) ok) = c"
| "caption_of (Log l m) = []"


text \<open>Example environments.\<close>

definition shop :: world where
  "shop =
     \<lparr>catalog = Doc (DList [EDict tea, EDict symbols]),
      path_exists = (\<lambda>f. f = asc ''assets/placeholder.jpg''),
      hour = 9,
      delivery = (\<lambda>n. None),
      command_start = (\<lambda>t. t = asc ''/start'')\<rparr>"

definition parse_error :: str where
  "parse_error = asc ''Bad Request: cannot parse entities''"

definition first_fails :: world where
  "first_fails = shop\<lparr>delivery := (\<lambda>n. if n = 0 then Some parse_error else None)\<rparr>"

definition outage :: world where
  "outage = shop\<lparr>delivery := (\<lambda>n. if n = 0 then None else Some parse_error)\<rparr>"

definition not_objects :: world where
  "not_objects = shop\<lparr>catalog := Doc (DList [ENonDict])\<rparr>"

definition absent :: world where
  "absent = shop\<lparr>catalog := Missing\<rparr>"

definition is_unknown_reply :: "event \<Rightarrow> bool" where
  "is_unknown_reply e =
     (e = Request unknown_category True \<or> e = Request unknown_category False)"

text \<open>The rich caption of \<open>tea\<close> at position 1 and the plain caption made from it.\<close>

definition tea_caption :: str where
  "tea_caption =
     cap_head @ asc ''1: Green tea '' @ [backslash] @ asc ''(1'' @ [backslash] @ asc ''.5kg''
     @ [backslash] @ asc '')'' @ cap_title_end @ cap_price_head @ asc ''100'' @ riyal
     @ cap_price_mid @ asc ''80'' @ riyal @ cap_price_end @ cap_saved_head @ asc ''20'' @ riyal
     @ cap_saved_end"

definition tea_plain :: str where
  "tea_plain =
     cap_head @ asc ''1: Green tea '' @ [backslash] @ asc ''(1'' @ [backslash] @ asc ''.5kg''
     @ [backslash] @ asc '')'' @ cap_title_end
     @ [128181, 32, 42, 1575, 1604, 1587, 1593, 1585, 58, 42, 10] @ asc ''100'' @ riyal
     @ asc '' -> *80'' @ riyal @ cap_price_end @ cap_saved_head @ asc ''20'' @ riyal
     @ cap_saved_end"




section \<open>Unfolding the model on concrete inputs\<close>

lemmas text_defs = asc_def str_int_def str_nat.simps backslash_def reserved_chars_def riyal_def
  cap_head_def cap_title_end_def cap_price_head_def cap_price_mid_def cap_price_end_def
  cap_saved_head_def cap_saved_end_def cap_single_head_def strike_marker_def

lemmas caption_defs = build_caption_def py_get_def py_gt0_def py_sub_def escape_markdown_v2_def
  plain_caption_def Let_def

lemmas label_defs = CATEGORY_MAP_def PLATFORM_MAP_def groceries_label_def beauty_label_def
  mobiles_label_def home_appliances_label_def amazon_label_def express_label_def
  trendyol_label_def back_label_def show_more_label_def

lemmas handler_defs = category_handler_def load_products_def load_failed_def log_def send_def
  transport_def selected_category_def get_products_by_category_def send_product_message_def
  select_photo_def build_product_keyboard_def rich_card_def plain_card_def send_card_def
  get_placeholder_image_def generic_error_def unknown_category_def empty_category_def

lemmas world_defs = shop_def first_fails_def outage_def not_objects_def absent_def tea_def
  symbols_def parse_error_def

section \<open>Escaping\<close>

lemma reserved_eval: "reserved_chars = [95, 42, 91, 93, 40, 41, 126, 96, 62, 35, 43, 45, 61, 124, 123, 125, 46, 33, 47]"
  by (simp add: reserved_chars_def asc_def)











lemma replace_single:
  "replace t [c] new = concat (map (\<lambda>x. if x = c then new else [x]) t)"
  by (induction t) auto

lemma escape_step:
  assumes "c \<notin> S" "c \<noteq> backslash"
  shows "replace (concat (map (\<lambda>x. if x \<in> S then [backslash, x] else [x]) t)) [c] [backslash, c]
       = concat (map (\<lambda>x. if x \<in> insert c S then [backslash, x] else [x]) t)"
  using assms by (induction t) (auto simp: replace_single)

lemma escape_fold:
  "distinct cs \<Longrightarrow> set cs \<inter> S = {} \<Longrightarrow> backslash \<notin> set cs \<Longrightarrow>
   foldl (\<lambda>acc c. replace acc [c] [backslash, c])
     (concat (map (\<lambda>x. if x \<in> S then [backslash, x] else [x]) t)) cs
   = concat (map (\<lambda>x. if x \<in> S \<union> set cs then [backslash, x] else [x]) t)"
proof (induction cs arbitrary: S)
  case Nil
  then show ?case by simp
next
  case (Cons c cs)
  have "c \<notin> S" "c \<noteq> backslash" using Cons.prems by auto
  note st = escape_step [OF this]
  have "set cs \<inter> insert c S = {}" using Cons.prems by auto
  with Cons.IH [of "insert c S"] Cons.prems show ?case
    by (simp add: st)
qed

lemma escape_markdown_v2_map: "escape_markdown_v2 t = concat (map esc_char t)"
proof -
  have "foldl (\<lambda>acc c. replace acc [c] [backslash, c])
     (concat (map (\<lambda>x. if x \<in> {} then [backslash, x] else [x]) t)) reserved_chars
   = concat (map (\<lambda>x. if x \<in> {} \<union> set reserved_chars then [backslash, x] else [x]) t)"
    by (rule escape_fold) (simp_all add: reserved_eval backslash_def)
  then show ?thesis
    by (simp add: escape_markdown_v2_def esc_char_def [abs_def])
qed

lemma build_caption_single:
  assumes "map_of p (asc ''title'') = Some (PStr t)"
    and "map_of p (asc ''new_price'') = Some (PInt n)"
    and "py_get p (asc ''old_price'') (PInt 0) = PInt old"
    and "\<not> 0 < old"
  shows "build_caption p idx =
           Inr (cap_head @ str_int idx @ asc '': '' @ escape_markdown_v2 t @ cap_title_end
                @ cap_single_head @ escape_markdown_v2 (str_int n @ riyal) @ asc ''*'')"
  using assms by (simp add: build_caption_def py_gt0_def Let_def)

lemma build_caption_discount:
  assumes "map_of p (asc ''title'') = Some (PStr t)"
    and "map_of p (asc ''new_price'') = Some (PInt n)"
    and "py_get p (asc ''old_price'') (PInt 0) = PInt old"
    and "0 < old"
  shows "build_caption p idx =
           Inr (cap_head @ str_int idx @ asc '': '' @ escape_markdown_v2 t @ cap_title_end
                @ cap_price_head @ escape_markdown_v2 (str_int old @ riyal)
                @ cap_price_mid @ escape_markdown_v2 (str_int n @ riyal) @ cap_price_end
                @ cap_saved_head @ escape_markdown_v2 (str_int (old - n) @ riyal) @ cap_saved_end)"
  using assms by (simp add: build_caption_def py_gt0_def py_sub_def Let_def)














lemma esc_char_guarded:
  "i < length (concat (map esc_char t)) \<Longrightarrow> concat (map esc_char t) ! i \<in> set reserved_chars
   \<Longrightarrow> 0 < i \<and> concat (map esc_char t) ! (i - 1) = backslash"
proof (induction t arbitrary: i)
  case Nil
  then show ?case by simp
next
  case (Cons c t)
  have b: "backslash \<notin> set reserved_chars"
    by (simp add: reserved_eval backslash_def)
  show ?case
  proof (cases "c \<in> set reserved_chars")
    case True
    then have e: "concat (map esc_char (c # t)) = backslash # c # concat (map esc_char t)"
      by (simp add: esc_char_def)
    show ?thesis
    proof (cases "i < 2")
      case True
      with Cons.prems b show ?thesis
        unfolding e by (cases i) (auto simp: less_Suc_eq)
    next
      case False
      then obtain j where j: "i = Suc (Suc j)" by (metis Suc_lessI less_2_cases_iff not_less0 not0_implies_Suc numeral_2_eq_2)
      with Cons.prems have "j < length (concat (map esc_char t))"
        "concat (map esc_char t) ! j \<in> set reserved_chars"
        unfolding e by simp_all
      from Cons.IH [OF this] show ?thesis
        unfolding e j by (cases j) simp_all
    qed
  next
    case False
    then have e: "concat (map esc_char (c # t)) = c # concat (map esc_char t)"
      by (simp add: esc_char_def)
    show ?thesis
    proof (cases i)
      case 0
      with Cons.prems False show ?thesis unfolding e by simp
    next
      case (Suc j)
      with Cons.prems have "j < length (concat (map esc_char t))"
        "concat (map esc_char t) ! j \<in> set reserved_chars"
        unfolding e by simp_all
      from Cons.IH [OF this] show ?thesis
        unfolding e Suc by (cases j) simp_all
    qed
  qed
qed

text \<open>
  Claim C2. Escaping puts exactly one backslash before every reserved character and
  changes nothing else: the loop of replacements is one pass of \<open>esc_char\<close> over the
  text, for every text, so nothing is escaped twice, and every reserved character of
  the result has a backslash right before it. The caption is the literal markup of the
  renderer with the title, the old price, the new price and the savings each escaped on
  its own between the markers; the markers themselves (the stars and the tildes of the
  literals) are not escaped. Without an old price the caption has the title and one
  escaped price only.
\<close>

theorem caption_escapes_each_field:
  assumes "map_of p (asc ''title'') = Some (PStr t)"
    and "map_of p (asc ''new_price'') = Some (PInt n)"
    and "py_get p (asc ''old_price'') (PInt 0) = PInt old"
  shows "escape_markdown_v2 s = concat (map esc_char s) \<and>
         (\<forall>i<length (escape_markdown_v2 s).
            escape_markdown_v2 s ! i \<in> set reserved_chars \<longrightarrow>
            0 < i \<and> escape_markdown_v2 s ! (i - 1) = backslash) \<and>
         build_caption p idx =
           Inr (cap_head @ str_int idx @ asc '': '' @ concat (map esc_char t) @ cap_title_end
                @ (if 0 < old
                   then cap_price_head @ concat (map esc_char (str_int old @ riyal))
                        @ cap_price_mid @ concat (map esc_char (str_int n @ riyal))
                        @ cap_price_end @ cap_saved_head
                        @ concat (map esc_char (str_int (old - n) @ riyal)) @ cap_saved_end
                   else cap_single_head @ concat (map esc_char (str_int n @ riyal))
                        @ asc ''*''))"
proof -
  have g: "\<forall>i<length (escape_markdown_v2 s).
            escape_markdown_v2 s ! i \<in> set reserved_chars \<longrightarrow>
            0 < i \<and> escape_markdown_v2 s ! (i - 1) = backslash"
    unfolding escape_markdown_v2_map using esc_char_guarded [of _ s] by blast
  show ?thesis
  proof (cases "0 < old")
    case True
    from build_caption_discount [OF assms True] g show ?thesis
      using True by (simp add: escape_markdown_v2_map)
  next
    case False
    from build_caption_single [OF assms False] g show ?thesis
      using False by (simp add: escape_markdown_v2_map)
  qed
qed

theorem caption_escapes_each_field_witness:
  "map_of symbols (asc ''title'') = Some (PStr (asc ''_*[]()~`>#+-=|{}.!/'')) \<and>
   map_of symbols (asc ''new_price'') = Some (PInt 10) \<and>
   py_get symbols (asc ''old_price'') (PInt 0) = PInt 0 \<and>
   escape_markdown_v2 (asc ''_*[]()~`>#+-=|{}.!/'')
     = asc [CHR 0x5C, CHR ''_'', CHR 0x5C, CHR ''*'', CHR 0x5C, CHR ''['', CHR 0x5C, CHR '']'',
            CHR 0x5C, CHR ''('', CHR 0x5C, CHR '')'', CHR 0x5C, CHR ''~'', CHR 0x5C, CHR 0x60,
            CHR 0x5C, CHR ''>'', CHR 0x5C, CHR ''#'', CHR 0x5C, CHR ''+'', CHR 0x5C, CHR ''-'',
            CHR 0x5C, CHR ''='', CHR 0x5C, CHR ''|'', CHR 0x5C, CHR ''{'', CHR 0x5C, CHR ''}'',
            CHR 0x5C, CHR ''.'', CHR 0x5C, CHR ''!'', CHR 0x5C, CHR ''/''] \<and>
   build_caption symbols 1 =
     Inr (cap_head @ asc ''1: ''
          @ escape_markdown_v2 (asc ''_*[]()~`>#+-=|{}.!/'')
          @ cap_title_end @ cap_single_head @ asc ''10'' @ riyal @ asc ''*'')"
proof -
  have h1: "map_of symbols (asc ''title'') = Some (PStr (asc ''_*[]()~`>#+-=|{}.!/''))"
    by (simp add: symbols_def asc_def)
  have h2: "map_of symbols (asc ''new_price'') = Some (PInt 10)"
    by (simp add: symbols_def asc_def)
  have h3: "py_get symbols (asc ''old_price'') (PInt 0) = PInt 0"
    by (simp add: symbols_def asc_def py_get_def)
  have e: "concat (map esc_char (asc ''_*[]()~`>#+-=|{}.!/''))
     = asc [CHR 0x5C, CHR ''_'', CHR 0x5C, CHR ''*'', CHR 0x5C, CHR ''['', CHR 0x5C, CHR '']'',
            CHR 0x5C, CHR ''('', CHR 0x5C, CHR '')'', CHR 0x5C, CHR ''~'', CHR 0x5C, CHR 0x60,
            CHR 0x5C, CHR ''>'', CHR 0x5C, CHR ''#'', CHR 0x5C, CHR ''+'', CHR 0x5C, CHR ''-'',
            CHR 0x5C, CHR ''='', CHR 0x5C, CHR ''|'', CHR 0x5C, CHR ''{'', CHR 0x5C, CHR ''}'',
            CHR 0x5C, CHR ''.'', CHR 0x5C, CHR ''!'', CHR 0x5C, CHR ''/'']"
    by (simp add: esc_char_def reserved_eval backslash_def asc_def)
  have n: "concat (map esc_char (str_int 10)) = asc ''10''"
    by (simp add: esc_char_def reserved_eval backslash_def asc_def str_int_def str_nat.simps)
  have r: "concat (map esc_char riyal) = riyal"
    by (simp add: esc_char_def reserved_eval backslash_def riyal_def)
  have i: "str_int 1 = asc ''1''"
    by (simp add: str_int_def str_nat.simps asc_def)
  from caption_escapes_each_field [OF h1 h2 h3, of "asc ''_*[]()~`>#+-=|{}.!/''" 1]
  have "escape_markdown_v2 (asc ''_*[]()~`>#+-=|{}.!/'')
          = concat (map esc_char (asc ''_*[]()~`>#+-=|{}.!/''))"
    and "build_caption symbols 1 =
           Inr (cap_head @ str_int 1 @ asc '': ''
                @ concat (map esc_char (asc ''_*[]()~`>#+-=|{}.!/'')) @ cap_title_end
                @ cap_single_head @ concat (map esc_char (str_int 10 @ riyal)) @ asc ''*'')"
    by simp_all
  then show ?thesis
    using h1 h2 h3 by (simp add: e n r i) (simp add: asc_def)
qed






section \<open>The reverse lookup of the category\<close>


lemma selected_category_cases:
  "label \<in> set (map snd CATEGORY_MAP) \<Longrightarrow>
   \<exists>k. selected_category label = Some k \<and> k \<noteq> [] \<and> (k, label) \<in> set CATEGORY_MAP"
  by (auto simp: selected_category_def label_defs asc_def)

lemma log_not_unknown: "filter is_unknown_reply (log l m tr) = filter is_unknown_reply tr"
  by (simp add: log_def is_unknown_reply_def)

lemma transport_not_unknown:
  "r \<noteq> unknown_category \<Longrightarrow>
   filter is_unknown_reply (snd (transport w r tr)) = filter is_unknown_reply tr"
  by (auto simp: transport_def is_unknown_reply_def split: option.splits)

lemma send_snd: "snd (send w r tr) = snd (transport w r tr)"
  by (simp add: send_def split: prod.splits option.splits)

lemma send_not_unknown:
  "r \<noteq> unknown_category \<Longrightarrow>
   filter is_unknown_reply (snd (send w r tr)) = filter is_unknown_reply tr"
  by (simp add: send_snd transport_not_unknown)

lemma placeholder_not_unknown:
  "filter is_unknown_reply (snd (get_placeholder_image w tr)) = filter is_unknown_reply tr"
  by (simp add: get_placeholder_image_def log_not_unknown)

lemma load_not_unknown:
  "filter is_unknown_reply (snd (load_products w tr)) = filter is_unknown_reply tr"
  by (simp add: load_products_def log_not_unknown split: source.splits option.splits)

lemma select_photo_not_unknown:
  "filter is_unknown_reply (snd (select_photo w p tr)) = filter is_unknown_reply tr"
  using placeholder_not_unknown [of w tr]
  by (auto simp: select_photo_def split: pyval.splits prod.splits)

lemma cards_not_unknown:
  "rich_card photo c (build_product_keyboard u) \<noteq> unknown_category"
  "plain_card c (build_product_keyboard u) \<noteq> unknown_category"
  by (simp_all add: rich_card_def plain_card_def build_product_keyboard_def unknown_category_def
        split: option.splits)

lemma send_card_not_unknown:
  "filter is_unknown_reply (snd (send_card w p photo c (build_product_keyboard u) tr))
     = filter is_unknown_reply tr"
proof (cases "transport w (rich_card photo c (build_product_keyboard u)) tr")
  case (Pair x tr')
  from transport_not_unknown [OF cards_not_unknown(1), of w photo c u tr] Pair
  have tr': "filter is_unknown_reply tr' = filter is_unknown_reply tr" by simp
  show ?thesis
    by (simp add: send_card_def Pair tr' send_not_unknown [OF cards_not_unknown(2)]
          log_not_unknown split: option.splits)
qed

lemma product_message_not_unknown:
  "filter is_unknown_reply (snd (send_product_message w p idx tr)) = filter is_unknown_reply tr"
proof (cases "select_photo w p tr")
  case (Pair x tr1)
  from select_photo_not_unknown [of w p tr] Pair
  have "filter is_unknown_reply tr1 = filter is_unknown_reply tr" by simp
  then show ?thesis
    by (simp add: send_product_message_def Pair send_card_not_unknown
          split: sum.splits option.splits)
qed

lemma send_products_not_unknown:
  "filter is_unknown_reply (snd (send_products w ps idx tr)) = filter is_unknown_reply tr"
proof (induction ps arbitrary: idx tr)
  case Nil
  then show ?case by simp
next
  case (Cons p ps)
  show ?case
  proof (cases "send_product_message w p idx tr")
    case (Pair x tr')
    from product_message_not_unknown [of w p idx tr] Pair
    have "filter is_unknown_reply tr' = filter is_unknown_reply tr" by simp
    then show ?thesis
      by (cases x) (simp_all add: Pair Cons.IH)
  qed
qed


lemma category_handler_not_unknown:
  assumes "label \<in> set (map snd CATEGORY_MAP)"
  shows "filter is_unknown_reply (snd (category_handler w label tr)) = filter is_unknown_reply tr"
proof -
  from selected_category_cases [OF assms] obtain k
    where k: "selected_category label = Some k" "k \<noteq> []" by blast
  obtain x tr1 where l: "load_products w tr = (x, tr1)" by (cases "load_products w tr")
  from load_not_unknown [of w tr] l
  have tr1: "filter is_unknown_reply tr1 = filter is_unknown_reply tr" by simp
  have g: "generic_error \<noteq> unknown_category" "empty_category \<noteq> unknown_category"
    by (simp_all add: generic_error_def empty_category_def unknown_category_def)
  show ?thesis
  proof (cases x)
    case (Inl e)
    then show ?thesis
      by (cases e)
        (simp_all add: category_handler_def l tr1 load_failed_def send_not_unknown [OF g(1)]
           log_not_unknown)
  next
    case (Inr products)
    show ?thesis
    proof (cases "get_products_by_category products k")
      case (Inl e)
      then show ?thesis
        by (simp add: category_handler_def l Inr k tr1)
    next
      case ps: (Inr cat_products)
      show ?thesis
      proof (cases "cat_products = []")
        case True
        then show ?thesis
          by (simp add: category_handler_def l Inr k ps tr1 send_not_unknown [OF g(2)])
      next
        case False
        let ?loading = "Answer (loading_head @ label @ asc ''...**'') ReplyKeyboardRemove Markdown"
        let ?ending = "Answer end_text (ReplyKeyboard [[show_more_label, back_label]] None) Markdown"
        have r: "?loading \<noteq> unknown_category" "?ending \<noteq> unknown_category"
          by (simp_all add: unknown_category_def)
        obtain y tr2 where s1: "send w ?loading tr1 = (y, tr2)" by (cases "send w ?loading tr1")
        from send_not_unknown [OF r(1), of w tr1] s1 tr1
        have tr2: "filter is_unknown_reply tr2 = filter is_unknown_reply tr" by simp
        obtain z tr3 where s2: "send_products w cat_products 1 tr2 = (z, tr3)"
          by (cases "send_products w cat_products 1 tr2")
        from send_products_not_unknown [of w cat_products 1 tr2] s2 tr2
        have tr3: "filter is_unknown_reply tr3 = filter is_unknown_reply tr" by simp
        show ?thesis
          using False
          by (cases y; cases z)
            (simp_all add: category_handler_def l Inr k ps s1 s2 tr2 tr3
               send_not_unknown [OF r(2)])
      qed
    qed
  qed
qed

text \<open>
  Claim C10. The filter of \<open>category_handler\<close> accepts exactly the values of
  \<open>CATEGORY_MAP\<close>. For such a label the reverse lookup finds a key of the map, and the
  key is not empty, so the test \<open>not selected_category\<close> is false; the handler never
  sends the unknown-category reply, whatever the environment.
\<close>

theorem unknown_category_branch_unreachable:
  assumes "label \<in> set (map snd CATEGORY_MAP)"
  shows "(\<exists>k. selected_category label = Some k \<and> k \<noteq> [] \<and> (k, label) \<in> set CATEGORY_MAP)
       \<and> filter is_unknown_reply (snd (category_handler w label tr)) = filter is_unknown_reply tr"
  using selected_category_cases [OF assms] category_handler_not_unknown [OF assms] by blast

theorem unknown_category_branch_unreachable_witness:
  "beauty_label \<in> set (map snd CATEGORY_MAP)
   \<and> selected_category beauty_label = Some (asc ''beauty'')
   \<and> filter is_unknown_reply (snd (category_handler shop beauty_label [])) = []"
proof -
  have h: "beauty_label \<in> set (map snd CATEGORY_MAP)"
    by (simp add: label_defs)
  have s: "selected_category beauty_label = Some (asc ''beauty'')"
    by (simp add: selected_category_def label_defs asc_def)
  from unknown_category_branch_unreachable [OF h, of shop "[]"] show ?thesis
    using h s by simp
qed

section \<open>The plain fallback\<close>


text \<open>
  Claim C7. The plain caption sent after a rich card fails is meant to be free of the
  escape markers of the rich format, but the code only undoes the escape of the star.
  For the product \<open>tea\<close>, whose title has brackets and a full stop, the rich send
  fails (the first request of the run), one plain request follows, and its text still
  has the backslashes of the title.
\<close>

theorem plain_fallback_keeps_backslashes:
  "build_caption tea 1 = Inr tea_caption \<and>
   plain_caption tea_caption = tea_plain \<and>
   send_product_message first_fails tea 1 [] =
     (Inr (),
      [Request (AnswerPhoto (asc ''assets/placeholder.jpg'') tea_caption
                  (InlineKeyboard buy_now (PStr (asc ''https://example.com/tea''))) MarkdownV2)
         False,
       Log ERROR (asc ''Failed to send product 1: Bad Request: cannot parse entities''),
       Request (Answer tea_plain
                  (InlineKeyboard buy_now (PStr (asc ''https://example.com/tea''))) NoParseMode)
         True]) \<and>
   sublist ([backslash] @ asc ''.5kg'') tea_plain"
proof -
  have c: "build_caption tea 1 = Inr tea_caption"
    by (simp add: tea_caption_def world_defs text_defs caption_defs)
  have p: "plain_caption tea_caption = tea_plain"
    by (simp add: tea_caption_def tea_plain_def text_defs caption_defs)
  have s: "sublist ([backslash] @ asc ''.5kg'') tea_plain"
    unfolding tea_plain_def sublist_def
    by (intro exI [of _ "cap_head @ asc ''1: Green tea '' @ [backslash] @ asc ''(1''"]
          exI [of _ "[backslash] @ asc '')'' @ cap_title_end
     @ [128181, 32, 42, 1575, 1604, 1587, 1593, 1585, 58, 42, 10] @ asc ''100'' @ riyal
     @ asc '' -> *80'' @ riyal @ cap_price_end @ cap_saved_head @ asc ''20'' @ riyal
     @ cap_saved_end"]) simp
  have m: "send_product_message first_fails tea 1 [] =
     (Inr (),
      [Request (AnswerPhoto (asc ''assets/placeholder.jpg'') tea_caption
                  (InlineKeyboard buy_now (PStr (asc ''https://example.com/tea''))) MarkdownV2)
         False,
       Log ERROR (asc ''Failed to send product 1: Bad Request: cannot parse entities''),
       Request (Answer tea_plain
                  (InlineKeyboard buy_now (PStr (asc ''https://example.com/tea''))) NoParseMode)
         True])"
    unfolding send_product_message_def c
    by (simp add: p send_card_def select_photo_def get_placeholder_image_def rich_card_def
          plain_card_def build_product_keyboard_def transport_def send_def log_def py_get_def
          first_fails_def shop_def tea_def parse_error_def asc_def str_int_def str_nat.simps)
  from c p m s show ?thesis by blast
qed

section \<open>Menus, load failures and the empty category\<close>


lemma amazon_keyboard:
  "adjust 2 (map snd CATEGORY_MAP @ [back_label]) =
     [[groceries_label, beauty_label], [mobiles_label, home_appliances_label], [back_label]]"
  by (simp add: CATEGORY_MAP_def adjust.simps)

text \<open>
  Claim C4, as amended. \<open>show_more_handler\<close> is \<open>amazon_handler\<close>: whatever the
  environment and whatever came before, it sends one message, the Amazon menu with the
  four category buttons and the back button, and no product card. There is no offset to
  advance and no category to remember.
\<close>

theorem show_more_reenters_amazon_menu:
  "show_more_handler w tr = amazon_handler w tr \<and>
   snd (show_more_handler w tr) =
     tr @ [Request (Answer amazon_text
                      (ReplyKeyboard [[groceries_label, beauty_label],
                                      [mobiles_label, home_appliances_label],
                                      [back_label]] (Some amazon_placeholder))
                      Markdown)
             (delivery w (length (filter is_request tr)) = None)] \<and>
   filter is_card (snd (show_more_handler w tr)) = filter is_card tr"
  by (simp add: show_more_handler_def amazon_handler_def amazon_keyboard send_def transport_def
        split: option.splits)

text \<open>
  Claim C4 as stated fails: in the example shop the grocery category shows product
  cards, and the "show more" label shows none of them again.
\<close>

theorem show_more_sends_no_cards:
  "map caption_of (filter is_card (snd (category_handler shop groceries_label []))) \<noteq> [] \<and>
   filter is_card (snd (show_more_handler shop [])) = []"
  by (simp add: show_more_handler_def amazon_handler_def amazon_keyboard
        handler_defs world_defs label_defs text_defs caption_defs)

text \<open>
  Claim C8, as amended. A label that no filter of the router accepts reaches no handler:
  the update is left unhandled and nothing is sent or logged.
\<close>

theorem unmatched_label_not_handled:
  assumes "\<not> command_start w label"
    and "label \<notin> set [amazon_label, back_label, show_more_label, express_label, trendyol_label]"
    and "label \<notin> set (map snd CATEGORY_MAP)"
  shows "dispatch w label tr = (Inr Unhandled, tr)"
  using assms by (simp add: dispatch_def)

theorem unmatched_label_not_handled_witness:
  "\<not> command_start shop (asc ''hello'') \<and>
   asc ''hello'' \<notin> set [amazon_label, back_label, show_more_label, express_label, trendyol_label] \<and>
   asc ''hello'' \<notin> set (map snd CATEGORY_MAP) \<and>
   dispatch shop (asc ''hello'') [] = (Inr Unhandled, [])"
proof -
  have h1: "\<not> command_start shop (asc ''hello'')"
    by (simp add: shop_def asc_def)
  have h2: "asc ''hello'' \<notin> set [amazon_label, back_label, show_more_label, express_label, trendyol_label]"
    by (simp add: label_defs asc_def)
  have h3: "asc ''hello'' \<notin> set (map snd CATEGORY_MAP)"
    by (simp add: label_defs asc_def)
  from unmatched_label_not_handled [OF h1 h2 h3, of "[]"] h1 h2 h3 show ?thesis by blast
qed

text \<open>
  Claim C8 as stated fails: the label \<open>hello\<close> matches nothing, and no guidance
  message is sent for it.
\<close>

theorem unmatched_label_no_guidance:
  "snd (dispatch shop (asc ''hello'') []) = []"
  by (simp add: dispatch_def shop_def label_defs asc_def)

text \<open>
  Claim C5 as stated fails: a catalog that is valid JSON but whose list holds an element
  that is not an object is loaded without complaint, and \<open>category_handler\<close> then
  raises \<open>AttributeError\<close> without sending anything.
\<close>

theorem non_object_catalog_escapes:
  "category_handler not_objects groceries_label [] =
     (Inl AttributeError, [Log INFO (asc ''Loaded 1 products from JSON'')])"
  by (simp add: handler_defs world_defs label_defs text_defs caption_defs)

text \<open>
  Claim C5, as amended. When the catalog file is absent, or is not valid JSON, or is not
  valid UTF-8, \<open>category_handler\<close> logs the cause and sends the one generic
  temporary-error message, whose text does not depend on the cause; the handler returns
  normally when that message is delivered.
\<close>

theorem load_failure_generic_reply:
  "(catalog w = Missing \<longrightarrow>
      category_handler w label tr =
        send w generic_error
          (tr @ [Log ERROR (asc ''products.json not found in data/ folder''),
                 Log ERROR (asc ''Data load error: data/products.json missing'')])) \<and>
   (catalog w = BadJSON m \<longrightarrow>
      category_handler w label tr =
        send w generic_error
          (tr @ [Log ERROR (asc ''Invalid JSON in products.json: '' @ m),
                 Log ERROR (asc ''Data load error: Invalid JSON format in products.json'')])) \<and>
   (catalog w = Undecodable m \<longrightarrow>
      category_handler w label tr =
        send w generic_error (tr @ [Log ERROR (asc ''Data load error: '' @ m)])) \<and>
   send w generic_error tr' =
     (case delivery w (length (filter is_request tr')) of
        None \<Rightarrow> (Inr (), tr' @ [Request (Answer temporary_error_text NoMarkup Markdown) True])
      | Some err \<Rightarrow>
          (Inl (TelegramError err),
           tr' @ [Request (Answer temporary_error_text NoMarkup Markdown) False]))"
  by (auto simp: category_handler_def load_products_def load_failed_def log_def asc_def
        send_def transport_def generic_error_def split: option.splits)

theorem load_failure_generic_reply_witness:
  "catalog absent = Missing \<and>
   category_handler absent groceries_label [] =
     (Inr (),
      [Log ERROR (asc ''products.json not found in data/ folder''),
       Log ERROR (asc ''Data load error: data/products.json missing''),
       Request (Answer temporary_error_text NoMarkup Markdown) True])"
proof -
  have h: "catalog absent = Missing" by (simp add: absent_def shop_def)
  have d: "delivery absent n = None" for n by (simp add: absent_def shop_def)
  from load_failure_generic_reply [of absent groceries_label "[]" "[]"
     "[Log ERROR (asc ''products.json not found in data/ folder''),
                 Log ERROR (asc ''Data load error: data/products.json missing'')]"]
  show ?thesis using h by (simp add: d)
qed

text \<open>
  Claim C9. When the catalog loads and no product matches the category of the label,
  the handler sends exactly one message, the empty-category text with the back button,
  and nothing else: no error reply and no product card.
\<close>

theorem empty_category_reply:
  assumes "load_products w tr = (Inr products, tr1)"
    and "(category, label) \<in> set CATEGORY_MAP"
    and "get_products_by_category products category = Inr []"
  shows "category_handler w label tr =
           send w (Answer empty_category_text (ReplyKeyboard [[back_label]] None) Markdown) tr1
         \<and> snd (category_handler w label tr) =
             tr1 @ [Request (Answer empty_category_text (ReplyKeyboard [[back_label]] None)
                               Markdown)
                      (delivery w (length (filter is_request tr1)) = None)]"
proof -
  have k: "selected_category label = Some category" "category \<noteq> []"
    using assms(2) by (auto simp: selected_category_def label_defs asc_def)
  show ?thesis
    by (simp add: category_handler_def assms k empty_category_def send_def transport_def
          split: option.splits)
qed

theorem empty_category_reply_witness:
  "load_products shop [] = (Inr (DList [EDict tea, EDict symbols]),
                            [Log INFO (asc ''Loaded 2 products from JSON'')]) \<and>
   (asc ''beauty'', beauty_label) \<in> set CATEGORY_MAP \<and>
   get_products_by_category (DList [EDict tea, EDict symbols]) (asc ''beauty'') = Inr [] \<and>
   category_handler shop beauty_label [] =
     (Inr (),
      [Log INFO (asc ''Loaded 2 products from JSON''),
       Request (Answer empty_category_text (ReplyKeyboard [[back_label]] None) Markdown) True])"
proof -
  have h1: "load_products shop [] = (Inr (DList [EDict tea, EDict symbols]),
                            [Log INFO (asc ''Loaded 2 products from JSON'')])"
    by (simp add: load_products_def shop_def log_def text_defs)
  have h2: "(asc ''beauty'', beauty_label) \<in> set CATEGORY_MAP"
    by (simp add: CATEGORY_MAP_def)
  have h3: "get_products_by_category (DList [EDict tea, EDict symbols]) (asc ''beauty'') = Inr []"
    by (simp add: get_products_by_category_def py_get_def tea_def symbols_def asc_def)
  have d: "delivery shop n = None" for n by (simp add: shop_def)
  from empty_category_reply [OF h1 h2 h3] show ?thesis
    using h1 h2 h3 by (simp add: send_def transport_def d)
qed

section \<open>The product cards of a category\<close>

























section \<open>Delivery failures\<close>






end
